theory Spec2Isabelle
  imports Main "HOL-Library.Word"
begin

section \<open>Data model\<close>

text \<open>
  \<^verbatim>\<open>DeleteUserCommand(string UserCode, ulong UserId)\<close> from
  \<^verbatim>\<open>Application/UseCases/User/Commands/DeleteUserCommand.cs\<close>.
  \<^verbatim>\<open>ulong\<close> is an unsigned 64-bit integer.
\<close>

record DeleteUserCommand =
  UserCode :: string
  UserId :: "64 word"

text \<open>
  Modelled from the spec: the declaration of the entity \<^verbatim>\<open>Domain.Entities.User.User\<close>
  is not among the sources. The record holds the properties that the handler reads
  (\<^verbatim>\<open>Id\<close>, \<^verbatim>\<open>IsAdmin\<close>, \<^verbatim>\<open>RoomId\<close>) and the authorization code that
  the tests set with \<^verbatim>\<open>WithAuthCode\<close>. The property \<^verbatim>\<open>Id\<close> is named
  \<open>Id_user\<close> here, since \<open>Id\<close> is the identity relation of HOL.
\<close>

record User =
  Id_user :: "64 word"
  AuthCode :: string
  IsAdmin :: bool
  RoomId :: "64 word"

text \<open>
  Modelled from the spec: the declaration of the aggregate \<^verbatim>\<open>Domain.Aggregate.Room.Room\<close>
  is not among the sources. The handler reads \<^verbatim>\<open>ClosedOn\<close> (a nullable timestamp,
  here in ticks) and reads and mutates the collection \<^verbatim>\<open>Users\<close>, which the tests
  build from a collection expression \<^verbatim>\<open>[adminUser, userToDelete]\<close>: a list. The
  data model makes the collection a membership set with uniqueness by id; the list type
  does not enforce that, so a property that rests on it assumes
  \<open>distinct (map Id_user (Users room))\<close>.
\<close>

type_synonym DateTime = nat

record Room =
  ClosedOn :: "DateTime option"
  Users :: "User list"

text \<open>
  Modelled from the spec: the error classes of \<^verbatim>\<open>Domain.Shared.ValidationErrors\<close> are
  not among the sources. Each of \<^verbatim>\<open>NotFoundError\<close>, \<^verbatim>\<open>ForbiddenError\<close> and
  \<^verbatim>\<open>BadRequestError\<close> is a \<^verbatim>\<open>ValidationResult\<close> built from a list of
  \<^verbatim>\<open>ValidationFailure(propertyName, errorMessage)\<close>.
\<close>

datatype ValidationFailure =
  ValidationFailure (PropertyName: string) (ErrorMessage: string)

datatype ValidationResult =
  NotFoundError (Errors: "ValidationFailure list")
| ForbiddenError (Errors: "ValidationFailure list")
| BadRequestError (Errors: "ValidationFailure list")

text \<open>
  The two repositories are the constructor parameters of the handler. Their
  implementations are external; a repository is given by what each of its methods
  returns. \<^verbatim>\<open>Result<T, ValidationResult>\<close> is the sum \<open>ValidationResult + T\<close>
  (\<open>Inl\<close> the failure); the untyped \<^verbatim>\<open>Result\<close> of \<^verbatim>\<open>UpdateAsync\<close> carries a
  string as its error. The cancellation token is passed through unread and is left out.
\<close>

record IUserReadOnlyRepository =
  GetByCodeAsync :: "string \<Rightarrow> bool \<Rightarrow> bool \<Rightarrow> ValidationResult + User"
  GetByIdAsync :: "64 word \<Rightarrow> bool \<Rightarrow> bool \<Rightarrow> ValidationResult + User"

record IRoomRepository =
  GetByUserCodeAsync :: "string \<Rightarrow> ValidationResult + Room"
  UpdateAsync :: "Room \<Rightarrow> string + unit"

text \<open>
  What one run of the handler does besides returning: the repository calls it issues, in
  order and with their arguments, and the state in which it leaves the loaded room object
  (\<open>None\<close> when no room was loaded).
\<close>

datatype RepositoryCall =
  GetByCodeAsyncCall string bool bool
| GetByIdAsyncCall "64 word" bool bool
| GetByUserCodeAsyncCall string
| UpdateAsyncCall Room

record Outcome =
  result :: "ValidationResult + unit"
  calls :: "RepositoryCall list"
  room_after :: "Room option"

section \<open>The handler\<close>

text \<open>
  \<^verbatim>\<open>Enumerable.FirstOrDefault(predicate)\<close>: the first element that satisfies the
  predicate, \<^verbatim>\<open>null\<close> when there is none.
\<close>

definition FirstOrDefault :: "('a \<Rightarrow> bool) \<Rightarrow> 'a list \<Rightarrow> 'a option" where
  "FirstOrDefault p xs = find p xs"

text \<open>
  \<^verbatim>\<open>ICollection<T>.Remove(item)\<close>: removes the first occurrence of the item and
  leaves the rest in place.
\<close>

definition Remove :: "'a \<Rightarrow> 'a list \<Rightarrow> 'a list" where
  "Remove x xs = remove1 x xs"

text \<open>
  Step 8 of \<^verbatim>\<open>DeleteUserHandler.Handle\<close> (lines 90 to 95): the in-place mutation of
  the loaded room.
\<close>

definition RemoveUserFromRoom :: "DeleteUserCommand \<Rightarrow> Room \<Rightarrow> Room" where
  "RemoveUserFromRoom request room =
     (case FirstOrDefault (\<lambda>u. Id_user u = UserId request) (Users room) of
        None \<Rightarrow> room
      | Some userToRemove \<Rightarrow> room\<lparr>Users := Remove userToRemove (Users room)\<rparr>)"

text \<open>
  \<^verbatim>\<open>DeleteUserHandler.Handle\<close>, lines 19 to 108, step by step. Every
  \<^verbatim>\<open>return\<close> of the source is one record below.
\<close>

definition Handle ::
  "IUserReadOnlyRepository \<Rightarrow> IRoomRepository \<Rightarrow> DeleteUserCommand \<Rightarrow> Outcome" where
  "Handle userRepository roomRepository request =
     (let c1 = GetByCodeAsyncCall (UserCode request) True False;
          c2 = GetByIdAsyncCall (UserId request) False False;
          c3 = GetByUserCodeAsyncCall (UserCode request)
      in
      case GetByCodeAsync userRepository (UserCode request) True False of
        Inl _ \<Rightarrow>
          \<lparr>result = Inl (NotFoundError
             [ValidationFailure ''userCode'' ''User with such code not found'']),
           calls = [c1], room_after = None\<rparr>
      | Inr adminUser \<Rightarrow>
          if \<not> IsAdmin adminUser then
            \<lparr>result = Inl (ForbiddenError
               [ValidationFailure ''userCode'' ''Only admin can delete users from the room'']),
             calls = [c1], room_after = None\<rparr>
          else
            (case GetByIdAsync userRepository (UserId request) False False of
               Inl _ \<Rightarrow>
                 \<lparr>result = Inl (NotFoundError
                    [ValidationFailure ''id'' ''User with such id not found'']),
                  calls = [c1, c2], room_after = None\<rparr>
             | Inr userToDelete \<Rightarrow>
                 if RoomId adminUser \<noteq> RoomId userToDelete then
                   \<lparr>result = Inl (ForbiddenError
                      [ValidationFailure ''id''
                         ''User with userCode and user with id belong to different rooms'']),
                    calls = [c1, c2], room_after = None\<rparr>
                 else if Id_user adminUser = Id_user userToDelete then
                   \<lparr>result = Inl (BadRequestError
                      [ValidationFailure ''id'' ''Admin cannot delete himself'']),
                    calls = [c1, c2], room_after = None\<rparr>
                 else
                   (case GetByUserCodeAsync roomRepository (UserCode request) of
                      Inl roomError \<Rightarrow>
                        \<lparr>result = Inl roomError, calls = [c1, c2, c3], room_after = None\<rparr>
                    | Inr room \<Rightarrow>
                        if ClosedOn room \<noteq> None then
                          \<lparr>result = Inl (BadRequestError
                             [ValidationFailure ''room''
                                ''Cannot delete user from a closed room'']),
                           calls = [c1, c2, c3], room_after = Some room\<rparr>
                        else
                          (let room' = RemoveUserFromRoom request room;
                               c4 = UpdateAsyncCall room'
                           in
                           case UpdateAsync roomRepository room' of
                             Inl updateError \<Rightarrow>
                               \<lparr>result = Inl (BadRequestError
                                  [ValidationFailure '''' updateError]),
                                calls = [c1, c2, c3, c4], room_after = Some room'\<rparr>
                           | Inr _ \<Rightarrow>
                               \<lparr>result = Inr (), calls = [c1, c2, c3, c4],
                                room_after = Some room'\<rparr>))))"

text \<open>The number of \<^verbatim>\<open>UpdateAsync\<close> calls in a call sequence.\<close>

fun isUpdateAsync :: "RepositoryCall \<Rightarrow> bool" where
  "isUpdateAsync (UpdateAsyncCall _) = True"
| "isUpdateAsync _ = False"

definition countUpdateAsync :: "RepositoryCall list \<Rightarrow> nat" where
  "countUpdateAsync cs = length (filter isUpdateAsync cs)"

section \<open>Test doubles\<close>

text \<open>
  The substitutes of \<^verbatim>\<open>DeleteUserHandlerTests\<close>: a repository whose methods return
  a fixed result for every argument (NSubstitute's \<^verbatim>\<open>Returns\<close>).
\<close>

definition userRepositoryMock ::
  "ValidationResult + User \<Rightarrow> ValidationResult + User \<Rightarrow> IUserReadOnlyRepository" where
  "userRepositoryMock byCode byId =
     \<lparr>GetByCodeAsync = (\<lambda>code includeRoom includeWishes. byCode),
      GetByIdAsync = (\<lambda>userId includeRoom includeWishes. byId)\<rparr>"

definition roomRepositoryMock ::
  "ValidationResult + Room \<Rightarrow> string + unit \<Rightarrow> IRoomRepository" where
  "roomRepositoryMock byUserCode updated =
     \<lparr>GetByUserCodeAsync = (\<lambda>code. byUserCode), UpdateAsync = (\<lambda>room. updated)\<rparr>"

text \<open>The users, rooms and commands that the tests arrange.\<close>

definition adminUser :: User where
  "adminUser = \<lparr>Id_user = 1, AuthCode = ''admin-code'', IsAdmin = True, RoomId = 1\<rparr>"

definition nonAdminUser :: User where
  "nonAdminUser = \<lparr>Id_user = 3, AuthCode = ''user-code'', IsAdmin = False, RoomId = 1\<rparr>"

definition userToDelete :: User where
  "userToDelete = \<lparr>Id_user = 2, AuthCode = ''code-2'', IsAdmin = False, RoomId = 1\<rparr>"

definition userInOtherRoom :: User where
  "userInOtherRoom = \<lparr>Id_user = 2, AuthCode = ''code-2'', IsAdmin = False, RoomId = 2\<rparr>"

definition openRoom :: Room where
  "openRoom = \<lparr>ClosedOn = None, Users = [adminUser, userToDelete]\<rparr>"

definition closedRoom :: Room where
  "closedRoom = \<lparr>ClosedOn = Some 638000000000000000, Users = [adminUser, userToDelete]\<rparr>"

definition deleteCommand :: DeleteUserCommand where
  "deleteCommand = \<lparr>UserCode = ''admin-code'', UserId = 2\<rparr>"

definition repositoryFailure :: ValidationResult where
  "repositoryFailure = ForbiddenError [ValidationFailure ''database'' ''Connection lost'']"

definition invalidCodeCommand :: DeleteUserCommand where
  "invalidCodeCommand = \<lparr>UserCode = ''invalid-code'', UserId = 1\<rparr>"

definition userCodeCommand :: DeleteUserCommand where
  "userCodeCommand = \<lparr>UserCode = ''user-code'', UserId = 999\<rparr>"

definition selfDeleteCommand :: DeleteUserCommand where
  "selfDeleteCommand = \<lparr>UserCode = ''admin-code'', UserId = 1\<rparr>"

definition absentCommand :: DeleteUserCommand where
  "absentCommand = \<lparr>UserCode = ''admin-code'', UserId = 7\<rparr>"

definition userNotInRoom :: User where
  "userNotInRoom = \<lparr>Id_user = 7, AuthCode = ''code-7'', IsAdmin = False, RoomId = 1\<rparr>"

section \<open>Auxiliary facts\<close>

text \<open>
  The lookup by id is issued exactly in the runs whose lookup by code resolved a user with
  the admin flag.
\<close>

lemma target_lookup_issued:
  "GetByIdAsyncCall (UserId request) False False
     \<in> set (calls (Handle userRepository roomRepository request))
   \<longleftrightarrow> (\<exists>a. GetByCodeAsync userRepository (UserCode request) True False = Inr a \<and> IsAdmin a)"
  by (auto simp: Handle_def Let_def split: sum.splits)

text \<open>
  Removing the first element that satisfies a predicate leaves no such element when the
  list has at most one of them.
\<close>

lemma remove_found_none_left:
  "find P xs = Some x \<Longrightarrow> length (filter P xs) \<le> 1 \<Longrightarrow> \<forall>u \<in> set (remove1 x xs). \<not> P u"
proof (induction xs)
  case Nil
  then show ?case by simp
next
  case (Cons y ys)
  show ?case
  proof (cases "P y")
    case True
    with Cons.prems have "x = y" and "filter P ys = []" by simp_all
    then show ?thesis by (simp add: filter_empty_conv)
  next
    case False
    with Cons.prems have f: "find P ys = Some x" and l: "length (filter P ys) \<le> 1"
      by simp_all
    from f have "P x" by (auto simp: find_Some_iff)
    with False have "x \<noteq> y" by auto
    with False Cons.IH [OF f l] show ?thesis by simp
  qed
qed

text \<open>In a collection with unique ids, at most one user has a given id.\<close>

lemma distinct_ids_at_most_one:
  "distinct (map f xs) \<Longrightarrow> length (filter (\<lambda>u. f u = k) xs) \<le> 1"
proof (induction xs)
  case Nil
  then show ?case by simp
next
  case (Cons y ys)
  show ?case
  proof (cases "f y = k")
    case True
    from Cons.prems have "f y \<notin> f ` set ys" by simp
    with True have "\<forall>u \<in> set ys. f u \<noteq> k" by (metis imageI)
    then have "filter (\<lambda>u. f u = k) ys = []" by (simp add: filter_empty_conv)
    with True show ?thesis by simp
  next
    case False
    with Cons show ?thesis by simp
  qed
qed

lemma find_None_all: "find P xs = None \<Longrightarrow> \<forall>u \<in> set xs. \<not> P u"
  by (simp add: find_None_iff)

lemma RemoveUserFromRoom_unique:
  assumes "length (filter (\<lambda>u. Id_user u = UserId request) (Users room)) \<le> 1"
  shows "\<forall>u \<in> set (Users (RemoveUserFromRoom request room)). Id_user u \<noteq> UserId request"
proof (cases "find (\<lambda>u. Id_user u = UserId request) (Users room)")
  case None
  then show ?thesis
    using find_None_all [OF None] by (simp add: RemoveUserFromRoom_def FirstOrDefault_def)
next
  case (Some x)
  then show ?thesis
    using remove_found_none_left [OF Some assms]
    by (simp add: RemoveUserFromRoom_def FirstOrDefault_def Remove_def)
qed

lemma RemoveUserFromRoom_absent:
  assumes "\<forall>u \<in> set (Users room). Id_user u \<noteq> UserId request"
  shows "RemoveUserFromRoom request room = room"
proof -
  from assms have "find (\<lambda>u. Id_user u = UserId request) (Users room) = None"
    by (simp add: find_None_iff)
  then show ?thesis by (simp add: RemoveUserFromRoom_def FirstOrDefault_def)
qed

section \<open>Properties of the handler\<close>

text \<open>
  C6: when the lookup of the admin by authorization code fails, the result is the
  \<^verbatim>\<open>NotFoundError\<close> on field \<^verbatim>\<open>userCode\<close> with message
  \<^verbatim>\<open>User with such code not found\<close>, and the lookup by code is the only repository
  call of the run.
\<close>

theorem admin_not_found:
  assumes "GetByCodeAsync userRepository (UserCode request) True False = Inl e"
  shows "result (Handle userRepository roomRepository request) =
           Inl (NotFoundError
             [ValidationFailure ''userCode'' ''User with such code not found''])
         \<and> calls (Handle userRepository roomRepository request) =
           [GetByCodeAsyncCall (UserCode request) True False]"
  using assms by (simp add: Handle_def)

theorem admin_not_found_witness:
  "GetByCodeAsync (userRepositoryMock (Inl repositoryFailure) (Inr userToDelete))
      (UserCode invalidCodeCommand) True False = Inl repositoryFailure
   \<and> result (Handle (userRepositoryMock (Inl repositoryFailure) (Inr userToDelete))
        (roomRepositoryMock (Inr openRoom) (Inr ())) invalidCodeCommand) =
       Inl (NotFoundError
         [ValidationFailure ''userCode'' ''User with such code not found''])
   \<and> calls (Handle (userRepositoryMock (Inl repositoryFailure) (Inr userToDelete))
        (roomRepositoryMock (Inr openRoom) (Inr ())) invalidCodeCommand) =
       [GetByCodeAsyncCall ''invalid-code'' True False]"
proof -
  have h: "GetByCodeAsync (userRepositoryMock (Inl repositoryFailure) (Inr userToDelete))
      (UserCode invalidCodeCommand) True False = Inl repositoryFailure"
    by (simp add: userRepositoryMock_def)
  show ?thesis
    using h admin_not_found [OF h, of "roomRepositoryMock (Inr openRoom) (Inr ())"]
    by (simp add: invalidCodeCommand_def)
qed

text \<open>
  C3: when the lookup by code resolves a user whose admin flag is false, the result is the
  \<^verbatim>\<open>ForbiddenError\<close> on field \<^verbatim>\<open>userCode\<close> with message
  \<^verbatim>\<open>Only admin can delete users from the room\<close>, whatever the id in the command and
  whatever the repositories would answer for it; the lookup by code is the only
  repository call, so no lookup by id, room load or update is made.
\<close>

theorem non_admin_forbidden:
  assumes "GetByCodeAsync userRepository (UserCode request) True False = Inr caller"
    and "\<not> IsAdmin caller"
  shows "result (Handle userRepository roomRepository request) =
           Inl (ForbiddenError
             [ValidationFailure ''userCode'' ''Only admin can delete users from the room''])
         \<and> calls (Handle userRepository roomRepository request) =
           [GetByCodeAsyncCall (UserCode request) True False]"
  using assms by (simp add: Handle_def)

theorem non_admin_forbidden_witness:
  "GetByCodeAsync (userRepositoryMock (Inr nonAdminUser) (Inl repositoryFailure))
      (UserCode userCodeCommand) True False = Inr nonAdminUser
   \<and> \<not> IsAdmin nonAdminUser
   \<and> result (Handle (userRepositoryMock (Inr nonAdminUser) (Inl repositoryFailure))
        (roomRepositoryMock (Inr openRoom) (Inr ())) userCodeCommand) =
       Inl (ForbiddenError
         [ValidationFailure ''userCode'' ''Only admin can delete users from the room''])
   \<and> calls (Handle (userRepositoryMock (Inr nonAdminUser) (Inl repositoryFailure))
        (roomRepositoryMock (Inr openRoom) (Inr ())) userCodeCommand) =
       [GetByCodeAsyncCall ''user-code'' True False]"
proof -
  have h1: "GetByCodeAsync (userRepositoryMock (Inr nonAdminUser) (Inl repositoryFailure))
      (UserCode userCodeCommand) True False = Inr nonAdminUser"
    by (simp add: userRepositoryMock_def)
  have h2: "\<not> IsAdmin nonAdminUser"
    by (simp add: nonAdminUser_def)
  show ?thesis
    using h1 h2
      non_admin_forbidden [OF h1 h2, of "roomRepositoryMock (Inr openRoom) (Inr ())"]
    by (simp add: userCodeCommand_def)
qed

text \<open>
  C5: in a run that issues the lookup by id (so the lookup by code resolved a user with
  the admin flag), when both lookups resolve and the two room ids differ, the result is
  the \<^verbatim>\<open>ForbiddenError\<close> on field \<^verbatim>\<open>id\<close> with message
  \<^verbatim>\<open>User with userCode and user with id belong to different rooms\<close>; the two user
  lookups are the only repository calls, so no room is loaded and none is updated.
\<close>

theorem different_rooms_forbidden:
  assumes "GetByIdAsyncCall (UserId request) False False
             \<in> set (calls (Handle userRepository roomRepository request))"
    and "GetByCodeAsync userRepository (UserCode request) True False = Inr admin"
    and "GetByIdAsync userRepository (UserId request) False False = Inr target"
    and "RoomId admin \<noteq> RoomId target"
  shows "result (Handle userRepository roomRepository request) =
           Inl (ForbiddenError
             [ValidationFailure ''id''
                ''User with userCode and user with id belong to different rooms''])
         \<and> calls (Handle userRepository roomRepository request) =
           [GetByCodeAsyncCall (UserCode request) True False,
            GetByIdAsyncCall (UserId request) False False]
         \<and> room_after (Handle userRepository roomRepository request) = None"
proof -
  from assms(1,2) have "IsAdmin admin"
    by (simp add: target_lookup_issued)
  with assms(2-4) show ?thesis
    by (simp add: Handle_def)
qed

theorem different_rooms_forbidden_witness:
  "GetByIdAsyncCall (UserId deleteCommand) False False
     \<in> set (calls (Handle (userRepositoryMock (Inr adminUser) (Inr userInOtherRoom))
          (roomRepositoryMock (Inr openRoom) (Inr ())) deleteCommand))
   \<and> RoomId adminUser \<noteq> RoomId userInOtherRoom
   \<and> result (Handle (userRepositoryMock (Inr adminUser) (Inr userInOtherRoom))
        (roomRepositoryMock (Inr openRoom) (Inr ())) deleteCommand) =
       Inl (ForbiddenError
         [ValidationFailure ''id''
            ''User with userCode and user with id belong to different rooms''])
   \<and> calls (Handle (userRepositoryMock (Inr adminUser) (Inr userInOtherRoom))
        (roomRepositoryMock (Inr openRoom) (Inr ())) deleteCommand) =
       [GetByCodeAsyncCall ''admin-code'' True False, GetByIdAsyncCall 2 False False]"
proof -
  have h1: "GetByIdAsyncCall (UserId deleteCommand) False False
     \<in> set (calls (Handle (userRepositoryMock (Inr adminUser) (Inr userInOtherRoom))
          (roomRepositoryMock (Inr openRoom) (Inr ())) deleteCommand))"
    by (simp add: Handle_def Let_def userRepositoryMock_def roomRepositoryMock_def
        adminUser_def userInOtherRoom_def deleteCommand_def)
  have h2: "GetByCodeAsync (userRepositoryMock (Inr adminUser) (Inr userInOtherRoom))
      (UserCode deleteCommand) True False = Inr adminUser"
    by (simp add: userRepositoryMock_def)
  have h3: "GetByIdAsync (userRepositoryMock (Inr adminUser) (Inr userInOtherRoom))
      (UserId deleteCommand) False False = Inr userInOtherRoom"
    by (simp add: userRepositoryMock_def)
  have h4: "RoomId adminUser \<noteq> RoomId userInOtherRoom"
    by (simp add: adminUser_def userInOtherRoom_def)
  show ?thesis
    using h1 h4 different_rooms_forbidden [OF h1 h2 h3 h4]
    by (simp add: deleteCommand_def)
qed

text \<open>
  C4: the admin deleting themself. In a run that issues the lookup by id, when the lookup
  by code and the lookup by id resolve the same participant, who has one id and, as every
  participant belongs to exactly one room, one room id, the result is the
  \<^verbatim>\<open>BadRequestError\<close> on field \<^verbatim>\<open>id\<close> with message
  \<^verbatim>\<open>Admin cannot delete himself\<close>, whatever the room repository holds (an open
  room included); the two user lookups are the only repository calls, so the guard fires
  before the room is loaded and the room is neither loaded nor updated.
\<close>

theorem self_delete_bad_request:
  assumes "GetByIdAsyncCall (UserId request) False False
             \<in> set (calls (Handle userRepository roomRepository request))"
    and "GetByCodeAsync userRepository (UserCode request) True False = Inr admin"
    and "GetByIdAsync userRepository (UserId request) False False = Inr target"
    and "Id_user admin = Id_user target"
    and "RoomId admin = RoomId target"
  shows "result (Handle userRepository roomRepository request) =
           Inl (BadRequestError [ValidationFailure ''id'' ''Admin cannot delete himself''])
         \<and> calls (Handle userRepository roomRepository request) =
           [GetByCodeAsyncCall (UserCode request) True False,
            GetByIdAsyncCall (UserId request) False False]
         \<and> room_after (Handle userRepository roomRepository request) = None"
proof -
  from assms(1,2) have "IsAdmin admin"
    by (simp add: target_lookup_issued)
  with assms(2-5) show ?thesis
    by (simp add: Handle_def)
qed

theorem self_delete_bad_request_witness:
  "GetByIdAsyncCall (UserId selfDeleteCommand) False False
     \<in> set (calls (Handle (userRepositoryMock (Inr adminUser) (Inr adminUser))
          (roomRepositoryMock (Inr openRoom) (Inr ())) selfDeleteCommand))
   \<and> ClosedOn openRoom = None
   \<and> result (Handle (userRepositoryMock (Inr adminUser) (Inr adminUser))
        (roomRepositoryMock (Inr openRoom) (Inr ())) selfDeleteCommand) =
       Inl (BadRequestError [ValidationFailure ''id'' ''Admin cannot delete himself''])
   \<and> calls (Handle (userRepositoryMock (Inr adminUser) (Inr adminUser))
        (roomRepositoryMock (Inr openRoom) (Inr ())) selfDeleteCommand) =
       [GetByCodeAsyncCall ''admin-code'' True False, GetByIdAsyncCall 1 False False]"
proof -
  have h1: "GetByIdAsyncCall (UserId selfDeleteCommand) False False
     \<in> set (calls (Handle (userRepositoryMock (Inr adminUser) (Inr adminUser))
          (roomRepositoryMock (Inr openRoom) (Inr ())) selfDeleteCommand))"
    by (simp add: Handle_def Let_def userRepositoryMock_def roomRepositoryMock_def
        adminUser_def selfDeleteCommand_def)
  have h2: "GetByCodeAsync (userRepositoryMock (Inr adminUser) (Inr adminUser))
      (UserCode selfDeleteCommand) True False = Inr adminUser"
    by (simp add: userRepositoryMock_def)
  have h3: "GetByIdAsync (userRepositoryMock (Inr adminUser) (Inr adminUser))
      (UserId selfDeleteCommand) False False = Inr adminUser"
    by (simp add: userRepositoryMock_def)
  have h4: "Id_user adminUser = Id_user adminUser" and h5: "RoomId adminUser = RoomId adminUser"
    by simp_all
  show ?thesis
    using h1 self_delete_bad_request [OF h1 h2 h3 h4 h5]
    by (simp add: selfDeleteCommand_def openRoom_def)
qed

text \<open>
  C7: when steps 1 to 5 pass and the room repository fails to load the room, the result of
  the handler is that very failure: the same error kind with the same list of fields and
  messages. The room load is the last repository call of the run.
\<close>

theorem room_failure_passed_through:
  assumes "GetByCodeAsync userRepository (UserCode request) True False = Inr admin"
    and "IsAdmin admin"
    and "GetByIdAsync userRepository (UserId request) False False = Inr target"
    and "RoomId admin = RoomId target"
    and "Id_user admin \<noteq> Id_user target"
    and "GetByUserCodeAsync roomRepository (UserCode request) = Inl roomError"
  shows "result (Handle userRepository roomRepository request) = Inl roomError
         \<and> calls (Handle userRepository roomRepository request) =
           [GetByCodeAsyncCall (UserCode request) True False,
            GetByIdAsyncCall (UserId request) False False,
            GetByUserCodeAsyncCall (UserCode request)]"
  using assms by (simp add: Handle_def)

theorem room_failure_passed_through_witness:
  "GetByUserCodeAsync (roomRepositoryMock (Inl repositoryFailure) (Inr ()))
      (UserCode deleteCommand) = Inl repositoryFailure
   \<and> result (Handle (userRepositoryMock (Inr adminUser) (Inr userToDelete))
        (roomRepositoryMock (Inl repositoryFailure) (Inr ())) deleteCommand) =
       Inl (ForbiddenError [ValidationFailure ''database'' ''Connection lost''])"
proof -
  have h1: "GetByCodeAsync (userRepositoryMock (Inr adminUser) (Inr userToDelete))
      (UserCode deleteCommand) True False = Inr adminUser"
    by (simp add: userRepositoryMock_def)
  have h2: "IsAdmin adminUser"
    by (simp add: adminUser_def)
  have h3: "GetByIdAsync (userRepositoryMock (Inr adminUser) (Inr userToDelete))
      (UserId deleteCommand) False False = Inr userToDelete"
    by (simp add: userRepositoryMock_def)
  have h4: "RoomId adminUser = RoomId userToDelete"
    by (simp add: adminUser_def userToDelete_def)
  have h5: "Id_user adminUser \<noteq> Id_user userToDelete"
    by (simp add: adminUser_def userToDelete_def)
  have h6: "GetByUserCodeAsync (roomRepositoryMock (Inl repositoryFailure) (Inr ()))
      (UserCode deleteCommand) = Inl repositoryFailure"
    by (simp add: roomRepositoryMock_def)
  show ?thesis
    using h6 room_failure_passed_through [OF h1 h2 h3 h4 h5 h6]
    by (simp add: repositoryFailure_def)
qed

text \<open>
  C2: when steps 1 to 5 pass and the loaded room has a non-null \<^verbatim>\<open>ClosedOn\<close>, the
  result is the \<^verbatim>\<open>BadRequestError\<close> on field \<^verbatim>\<open>room\<close> with message
  \<^verbatim>\<open>Cannot delete user from a closed room\<close>; the room object is left as it was
  loaded (its \<^verbatim>\<open>Users\<close> included), and the three reads are the only repository calls:
  no \<^verbatim>\<open>UpdateAsync\<close> is issued.
\<close>

theorem closed_room_bad_request:
  assumes "GetByCodeAsync userRepository (UserCode request) True False = Inr admin"
    and "IsAdmin admin"
    and "GetByIdAsync userRepository (UserId request) False False = Inr target"
    and "RoomId admin = RoomId target"
    and "Id_user admin \<noteq> Id_user target"
    and "GetByUserCodeAsync roomRepository (UserCode request) = Inr room"
    and "ClosedOn room \<noteq> None"
  shows "result (Handle userRepository roomRepository request) =
           Inl (BadRequestError
             [ValidationFailure ''room'' ''Cannot delete user from a closed room''])
         \<and> room_after (Handle userRepository roomRepository request) = Some room
         \<and> calls (Handle userRepository roomRepository request) =
           [GetByCodeAsyncCall (UserCode request) True False,
            GetByIdAsyncCall (UserId request) False False,
            GetByUserCodeAsyncCall (UserCode request)]
         \<and> countUpdateAsync (calls (Handle userRepository roomRepository request)) = 0"
  using assms by (simp add: Handle_def countUpdateAsync_def)

theorem closed_room_bad_request_witness:
  "ClosedOn closedRoom \<noteq> None
   \<and> result (Handle (userRepositoryMock (Inr adminUser) (Inr userToDelete))
        (roomRepositoryMock (Inr closedRoom) (Inr ())) deleteCommand) =
       Inl (BadRequestError
         [ValidationFailure ''room'' ''Cannot delete user from a closed room''])
   \<and> room_after (Handle (userRepositoryMock (Inr adminUser) (Inr userToDelete))
        (roomRepositoryMock (Inr closedRoom) (Inr ())) deleteCommand) = Some closedRoom
   \<and> Users closedRoom = [adminUser, userToDelete]
   \<and> countUpdateAsync (calls (Handle (userRepositoryMock (Inr adminUser) (Inr userToDelete))
        (roomRepositoryMock (Inr closedRoom) (Inr ())) deleteCommand)) = 0"
proof -
  have h1: "GetByCodeAsync (userRepositoryMock (Inr adminUser) (Inr userToDelete))
      (UserCode deleteCommand) True False = Inr adminUser"
    by (simp add: userRepositoryMock_def)
  have h2: "IsAdmin adminUser"
    by (simp add: adminUser_def)
  have h3: "GetByIdAsync (userRepositoryMock (Inr adminUser) (Inr userToDelete))
      (UserId deleteCommand) False False = Inr userToDelete"
    by (simp add: userRepositoryMock_def)
  have h4: "RoomId adminUser = RoomId userToDelete"
    by (simp add: adminUser_def userToDelete_def)
  have h5: "Id_user adminUser \<noteq> Id_user userToDelete"
    by (simp add: adminUser_def userToDelete_def)
  have h6: "GetByUserCodeAsync (roomRepositoryMock (Inr closedRoom) (Inr ()))
      (UserCode deleteCommand) = Inr closedRoom"
    by (simp add: roomRepositoryMock_def)
  have h7: "ClosedOn closedRoom \<noteq> None"
    by (simp add: closedRoom_def)
  have h8: "Users closedRoom = [adminUser, userToDelete]"
    by (simp add: closedRoom_def)
  show ?thesis
    using h7 h8 closed_room_bad_request [OF h1 h2 h3 h4 h5 h6 h7]
    by (simp add: countUpdateAsync_def)
qed

text \<open>
  C8: in every run that reaches the persistence step, that is, every run that issues
  \<^verbatim>\<open>UpdateAsync\<close> on some room, a failure of that call with message \<open>updateError\<close>
  gives the \<^verbatim>\<open>BadRequestError\<close> whose single entry has the empty field name and the
  message \<open>updateError\<close> itself, and a success of that call gives the success value,
  which carries no payload (\<^verbatim>\<open>Unit\<close>).
\<close>

theorem persist_result:
  assumes "UpdateAsyncCall room' \<in> set (calls (Handle userRepository roomRepository request))"
  shows "(UpdateAsync roomRepository room' = Inl updateError \<longrightarrow>
            result (Handle userRepository roomRepository request) =
              Inl (BadRequestError [ValidationFailure '''' updateError]))
         \<and> (UpdateAsync roomRepository room' = Inr () \<longrightarrow>
            result (Handle userRepository roomRepository request) = Inr ())"
  using assms by (auto simp: Handle_def Let_def split: sum.splits if_splits)

theorem persist_result_witness:
  "UpdateAsyncCall \<lparr>ClosedOn = None, Users = [adminUser]\<rparr>
     \<in> set (calls (Handle (userRepositoryMock (Inr adminUser) (Inr userToDelete))
          (roomRepositoryMock (Inr openRoom) (Inl ''Database update failed'')) deleteCommand))
   \<and> result (Handle (userRepositoryMock (Inr adminUser) (Inr userToDelete))
        (roomRepositoryMock (Inr openRoom) (Inl ''Database update failed'')) deleteCommand) =
       Inl (BadRequestError [ValidationFailure '''' ''Database update failed''])
   \<and> UpdateAsyncCall \<lparr>ClosedOn = None, Users = [adminUser]\<rparr>
     \<in> set (calls (Handle (userRepositoryMock (Inr adminUser) (Inr userToDelete))
          (roomRepositoryMock (Inr openRoom) (Inr ())) deleteCommand))
   \<and> result (Handle (userRepositoryMock (Inr adminUser) (Inr userToDelete))
        (roomRepositoryMock (Inr openRoom) (Inr ())) deleteCommand) = Inr ()"
proof -
  have f1: "UpdateAsyncCall \<lparr>ClosedOn = None, Users = [adminUser]\<rparr>
     \<in> set (calls (Handle (userRepositoryMock (Inr adminUser) (Inr userToDelete))
          (roomRepositoryMock (Inr openRoom) (Inl ''Database update failed'')) deleteCommand))"
    by (simp add: Handle_def Let_def userRepositoryMock_def roomRepositoryMock_def
        RemoveUserFromRoom_def FirstOrDefault_def Remove_def
        adminUser_def userToDelete_def openRoom_def deleteCommand_def)
  have f2: "UpdateAsync (roomRepositoryMock (Inr openRoom) (Inl ''Database update failed''))
      \<lparr>ClosedOn = None, Users = [adminUser]\<rparr> = Inl ''Database update failed''"
    by (simp add: roomRepositoryMock_def)
  have s1: "UpdateAsyncCall \<lparr>ClosedOn = None, Users = [adminUser]\<rparr>
     \<in> set (calls (Handle (userRepositoryMock (Inr adminUser) (Inr userToDelete))
          (roomRepositoryMock (Inr openRoom) (Inr ())) deleteCommand))"
    by (simp add: Handle_def Let_def userRepositoryMock_def roomRepositoryMock_def
        RemoveUserFromRoom_def FirstOrDefault_def Remove_def
        adminUser_def userToDelete_def openRoom_def deleteCommand_def)
  have s2: "UpdateAsync (roomRepositoryMock (Inr openRoom) (Inr ()))
      \<lparr>ClosedOn = None, Users = [adminUser]\<rparr> = Inr ()"
    by (simp add: roomRepositoryMock_def)
  show ?thesis
    using f1 f2 s1 s2
      persist_result [OF f1, of "''Database update failed''"]
      persist_result [OF s1]
    by simp
qed

text \<open>
  C9: when steps 1 to 7 pass and the loaded room lists no user with the id of the
  command, step 8 removes nothing and does not fail: the room object stays as it was
  loaded, the handler still issues \<^verbatim>\<open>UpdateAsync\<close> on that unchanged room as its
  fourth and last repository call, and the result is the mapped result of that call
  (the \<^verbatim>\<open>BadRequestError\<close> with the empty field name and the repository's message
  on failure, the success value otherwise).
\<close>

theorem absent_target_is_no_op:
  assumes "GetByCodeAsync userRepository (UserCode request) True False = Inr admin"
    and "IsAdmin admin"
    and "GetByIdAsync userRepository (UserId request) False False = Inr target"
    and "RoomId admin = RoomId target"
    and "Id_user admin \<noteq> Id_user target"
    and "GetByUserCodeAsync roomRepository (UserCode request) = Inr room"
    and "ClosedOn room = None"
    and "\<forall>u \<in> set (Users room). Id_user u \<noteq> UserId request"
  shows "RemoveUserFromRoom request room = room
         \<and> room_after (Handle userRepository roomRepository request) = Some room
         \<and> calls (Handle userRepository roomRepository request) =
           [GetByCodeAsyncCall (UserCode request) True False,
            GetByIdAsyncCall (UserId request) False False,
            GetByUserCodeAsyncCall (UserCode request),
            UpdateAsyncCall room]
         \<and> result (Handle userRepository roomRepository request) =
           (case UpdateAsync roomRepository room of
              Inl updateError \<Rightarrow> Inl (BadRequestError [ValidationFailure '''' updateError])
            | Inr _ \<Rightarrow> Inr ())"
proof -
  have same: "RemoveUserFromRoom request room = room"
    using assms(8) by (rule RemoveUserFromRoom_absent)
  show ?thesis
    using assms(1-7) same by (simp add: Handle_def split: sum.splits)
qed

theorem absent_target_is_no_op_witness:
  "Users openRoom = [adminUser, userToDelete]
   \<and> Id_user adminUser \<noteq> UserId absentCommand
   \<and> Id_user userToDelete \<noteq> UserId absentCommand
   \<and> room_after (Handle (userRepositoryMock (Inr adminUser) (Inr userNotInRoom))
        (roomRepositoryMock (Inr openRoom) (Inr ())) absentCommand) = Some openRoom
   \<and> calls (Handle (userRepositoryMock (Inr adminUser) (Inr userNotInRoom))
        (roomRepositoryMock (Inr openRoom) (Inr ())) absentCommand) =
       [GetByCodeAsyncCall ''admin-code'' True False, GetByIdAsyncCall 7 False False,
        GetByUserCodeAsyncCall ''admin-code'', UpdateAsyncCall openRoom]
   \<and> result (Handle (userRepositoryMock (Inr adminUser) (Inr userNotInRoom))
        (roomRepositoryMock (Inr openRoom) (Inr ())) absentCommand) = Inr ()"
proof -
  have h1: "GetByCodeAsync (userRepositoryMock (Inr adminUser) (Inr userNotInRoom))
      (UserCode absentCommand) True False = Inr adminUser"
    by (simp add: userRepositoryMock_def)
  have h2: "IsAdmin adminUser"
    by (simp add: adminUser_def)
  have h3: "GetByIdAsync (userRepositoryMock (Inr adminUser) (Inr userNotInRoom))
      (UserId absentCommand) False False = Inr userNotInRoom"
    by (simp add: userRepositoryMock_def)
  have h4: "RoomId adminUser = RoomId userNotInRoom"
    by (simp add: adminUser_def userNotInRoom_def)
  have h5: "Id_user adminUser \<noteq> Id_user userNotInRoom"
    by (simp add: adminUser_def userNotInRoom_def)
  have h6: "GetByUserCodeAsync (roomRepositoryMock (Inr openRoom) (Inr ()))
      (UserCode absentCommand) = Inr openRoom"
    by (simp add: roomRepositoryMock_def)
  have h7: "ClosedOn openRoom = None"
    by (simp add: openRoom_def)
  have h8: "\<forall>u \<in> set (Users openRoom). Id_user u \<noteq> UserId absentCommand"
    by (simp add: openRoom_def adminUser_def userToDelete_def absentCommand_def)
  have u: "UpdateAsync (roomRepositoryMock (Inr openRoom) (Inr ())) openRoom = Inr ()"
    by (simp add: roomRepositoryMock_def)
  have l: "Users openRoom = [adminUser, userToDelete]"
    by (simp add: openRoom_def)
  show ?thesis
    using h8 u l absent_target_is_no_op [OF h1 h2 h3 h4 h5 h6 h7 h8]
    by (simp add: absentCommand_def)
qed

text \<open>
  C10: whatever failure \<open>e\<close> the user repository returns, the handler does not hand it
  on. A failed lookup by code (step 1) gives the fixed \<^verbatim>\<open>NotFoundError\<close> on field
  \<^verbatim>\<open>userCode\<close> with message \<^verbatim>\<open>User with such code not found\<close>; a failed lookup
  by id (step 3), in a run that issues that lookup, gives the fixed
  \<^verbatim>\<open>NotFoundError\<close> on field \<^verbatim>\<open>id\<close> with message
  \<^verbatim>\<open>User with such id not found\<close>. Neither result mentions \<open>e\<close>.
\<close>

theorem user_lookup_failures_replaced:
  "(GetByCodeAsync userRepository (UserCode request) True False = Inl e \<longrightarrow>
      result (Handle userRepository roomRepository request) =
        Inl (NotFoundError
          [ValidationFailure ''userCode'' ''User with such code not found'']))
   \<and> (GetByIdAsyncCall (UserId request) False False
         \<in> set (calls (Handle userRepository roomRepository request))
       \<and> GetByIdAsync userRepository (UserId request) False False = Inl e \<longrightarrow>
      result (Handle userRepository roomRepository request) =
        Inl (NotFoundError [ValidationFailure ''id'' ''User with such id not found'']))"
proof (intro conjI impI)
  assume "GetByCodeAsync userRepository (UserCode request) True False = Inl e"
  then show "result (Handle userRepository roomRepository request) =
      Inl (NotFoundError
        [ValidationFailure ''userCode'' ''User with such code not found''])"
    by (simp add: Handle_def)
next
  assume step3: "GetByIdAsyncCall (UserId request) False False
         \<in> set (calls (Handle userRepository roomRepository request))
       \<and> GetByIdAsync userRepository (UserId request) False False = Inl e"
  then obtain a where "GetByCodeAsync userRepository (UserCode request) True False = Inr a"
    and "IsAdmin a"
    by (auto simp: target_lookup_issued)
  with step3 show "result (Handle userRepository roomRepository request) =
      Inl (NotFoundError [ValidationFailure ''id'' ''User with such id not found''])"
    by (simp add: Handle_def)
qed

theorem user_lookup_failures_replaced_witness:
  "GetByCodeAsync (userRepositoryMock (Inl repositoryFailure) (Inr userToDelete))
      (UserCode deleteCommand) True False
     = Inl (ForbiddenError [ValidationFailure ''database'' ''Connection lost''])
   \<and> result (Handle (userRepositoryMock (Inl repositoryFailure) (Inr userToDelete))
        (roomRepositoryMock (Inr openRoom) (Inr ())) deleteCommand) =
       Inl (NotFoundError
         [ValidationFailure ''userCode'' ''User with such code not found''])
   \<and> GetByIdAsyncCall (UserId deleteCommand) False False
       \<in> set (calls (Handle (userRepositoryMock (Inr adminUser) (Inl repositoryFailure))
            (roomRepositoryMock (Inr openRoom) (Inr ())) deleteCommand))
   \<and> GetByIdAsync (userRepositoryMock (Inr adminUser) (Inl repositoryFailure))
        (UserId deleteCommand) False False
     = Inl (ForbiddenError [ValidationFailure ''database'' ''Connection lost''])
   \<and> result (Handle (userRepositoryMock (Inr adminUser) (Inl repositoryFailure))
        (roomRepositoryMock (Inr openRoom) (Inr ())) deleteCommand) =
       Inl (NotFoundError [ValidationFailure ''id'' ''User with such id not found''])"
proof -
  have c: "GetByCodeAsync (userRepositoryMock (Inl repositoryFailure) (Inr userToDelete))
      (UserCode deleteCommand) True False = Inl repositoryFailure"
    by (simp add: userRepositoryMock_def)
  have i1: "GetByIdAsyncCall (UserId deleteCommand) False False
       \<in> set (calls (Handle (userRepositoryMock (Inr adminUser) (Inl repositoryFailure))
            (roomRepositoryMock (Inr openRoom) (Inr ())) deleteCommand))"
    by (simp add: Handle_def Let_def userRepositoryMock_def roomRepositoryMock_def
        adminUser_def deleteCommand_def)
  have i2: "GetByIdAsync (userRepositoryMock (Inr adminUser) (Inl repositoryFailure))
        (UserId deleteCommand) False False = Inl repositoryFailure"
    by (simp add: userRepositoryMock_def)
  show ?thesis
    using c i1 i2
      user_lookup_failures_replaced
        [of "userRepositoryMock (Inl repositoryFailure) (Inr userToDelete)" deleteCommand
            repositoryFailure "roomRepositoryMock (Inr openRoom) (Inr ())"]
      user_lookup_failures_replaced
        [of "userRepositoryMock (Inr adminUser) (Inl repositoryFailure)" deleteCommand
            repositoryFailure "roomRepositoryMock (Inr openRoom) (Inr ())"]
    by (simp add: repositoryFailure_def)
qed

text \<open>
  C1: when the lookup by code resolves a user with the admin flag, the lookup by id
  resolves a user with another id and the admin's room id, the room loads with a null
  \<^verbatim>\<open>ClosedOn\<close> and lists the target among its \<^verbatim>\<open>Users\<close> (a collection
  with uniqueness by id, as the data model has it), and the update of the mutated room
  succeeds, then the result is success, the room object is left as step 8 mutated it, no
  user with the target id (the id of the command) is left in its \<^verbatim>\<open>Users\<close>, and
  the run issues the three reads followed by one \<^verbatim>\<open>UpdateAsync\<close> on that
  mutated room: exactly one persistence call.
\<close>

theorem delete_succeeds:
  assumes "GetByCodeAsync userRepository (UserCode request) True False = Inr admin"
    and "IsAdmin admin"
    and "GetByIdAsync userRepository (UserId request) False False = Inr target"
    and "Id_user admin \<noteq> Id_user target"
    and "RoomId admin = RoomId target"
    and "GetByUserCodeAsync roomRepository (UserCode request) = Inr room"
    and "ClosedOn room = None"
    and "target \<in> set (Users room)"
    and "distinct (map Id_user (Users room))"
    and "UpdateAsync roomRepository (RemoveUserFromRoom request room) = Inr ()"
  shows "result (Handle userRepository roomRepository request) = Inr ()
         \<and> room_after (Handle userRepository roomRepository request) =
             Some (RemoveUserFromRoom request room)
         \<and> (\<forall>u \<in> set (Users (RemoveUserFromRoom request room)). Id_user u \<noteq> UserId request)
         \<and> calls (Handle userRepository roomRepository request) =
           [GetByCodeAsyncCall (UserCode request) True False,
            GetByIdAsyncCall (UserId request) False False,
            GetByUserCodeAsyncCall (UserCode request),
            UpdateAsyncCall (RemoveUserFromRoom request room)]
         \<and> countUpdateAsync (calls (Handle userRepository roomRepository request)) = 1"
proof -
  have gone: "\<forall>u \<in> set (Users (RemoveUserFromRoom request room)). Id_user u \<noteq> UserId request"
    using distinct_ids_at_most_one [OF assms(9)] by (rule RemoveUserFromRoom_unique)
  have run: "Handle userRepository roomRepository request =
      \<lparr>result = Inr (),
       calls = [GetByCodeAsyncCall (UserCode request) True False,
                GetByIdAsyncCall (UserId request) False False,
                GetByUserCodeAsyncCall (UserCode request),
                UpdateAsyncCall (RemoveUserFromRoom request room)],
       room_after = Some (RemoveUserFromRoom request room)\<rparr>"
    using assms(1-7,10) by (simp add: Handle_def Let_def)
  show ?thesis
    using gone by (simp add: run countUpdateAsync_def)
qed

theorem delete_succeeds_witness:
  "distinct (map Id_user (Users openRoom))
   \<and> userToDelete \<in> set (Users openRoom)
   \<and> result (Handle (userRepositoryMock (Inr adminUser) (Inr userToDelete))
        (roomRepositoryMock (Inr openRoom) (Inr ())) deleteCommand) = Inr ()
   \<and> room_after (Handle (userRepositoryMock (Inr adminUser) (Inr userToDelete))
        (roomRepositoryMock (Inr openRoom) (Inr ())) deleteCommand) =
       Some \<lparr>ClosedOn = None, Users = [adminUser]\<rparr>
   \<and> countUpdateAsync (calls (Handle (userRepositoryMock (Inr adminUser) (Inr userToDelete))
        (roomRepositoryMock (Inr openRoom) (Inr ())) deleteCommand)) = 1"
proof -
  have h1: "GetByCodeAsync (userRepositoryMock (Inr adminUser) (Inr userToDelete))
      (UserCode deleteCommand) True False = Inr adminUser"
    by (simp add: userRepositoryMock_def)
  have h2: "IsAdmin adminUser"
    by (simp add: adminUser_def)
  have h3: "GetByIdAsync (userRepositoryMock (Inr adminUser) (Inr userToDelete))
      (UserId deleteCommand) False False = Inr userToDelete"
    by (simp add: userRepositoryMock_def)
  have h4: "Id_user adminUser \<noteq> Id_user userToDelete"
    by (simp add: adminUser_def userToDelete_def)
  have h5: "RoomId adminUser = RoomId userToDelete"
    by (simp add: adminUser_def userToDelete_def)
  have h6: "GetByUserCodeAsync (roomRepositoryMock (Inr openRoom) (Inr ()))
      (UserCode deleteCommand) = Inr openRoom"
    by (simp add: roomRepositoryMock_def)
  have h7: "ClosedOn openRoom = None"
    by (simp add: openRoom_def)
  have h8: "userToDelete \<in> set (Users openRoom)"
    by (simp add: openRoom_def)
  have h9: "distinct (map Id_user (Users openRoom))"
    by (simp add: openRoom_def adminUser_def userToDelete_def)
  have h10: "UpdateAsync (roomRepositoryMock (Inr openRoom) (Inr ()))
      (RemoveUserFromRoom deleteCommand openRoom) = Inr ()"
    by (simp add: roomRepositoryMock_def)
  have r: "RemoveUserFromRoom deleteCommand openRoom = \<lparr>ClosedOn = None, Users = [adminUser]\<rparr>"
    by (simp add: RemoveUserFromRoom_def FirstOrDefault_def Remove_def
        adminUser_def userToDelete_def openRoom_def deleteCommand_def)
  show ?thesis
    using h8 h9 delete_succeeds [OF h1 h2 h3 h4 h5 h6 h7 h8 h9 h10]
    by (simp add: r countUpdateAsync_def)
qed

end
